theory Spec2Isabelle
  imports Main
begin

section \<open>JavaScript values, documents and responses\<close>

text \<open>
  The servers of this repository are Express applications over a MongoDB database.
  Request bodies arrive through \<^verbatim>\<open>express.json()\<close>, decoded identity tokens through the
  Firebase Admin SDK, and documents through the MongoDB driver. The values that the
  handlers read, compare and store are modelled by \<open>jv\<close>: the JSON scalars, JavaScript's
  \<^verbatim>\<open>undefined\<close>, and the two object types the handlers create themselves
  (\<^verbatim>\<open>new Date()\<close>, as a clock reading, and \<^verbatim>\<open>new ObjectId(..)\<close>, as its 24 lower-case
  hex digits). A JavaScript object with scalar members is an association list in
  property order; member names are taken verbatim.
\<close>

datatype jv = JUndef | JNull | JBool bool | JNum int | JStr string | JDate int | JOid string

type_synonym doc = "(string \<times> jv) list"

text \<open>What \<^verbatim>\<open>res.json(..)\<close> and \<^verbatim>\<open>res.send(..)\<close> are given, before serialisation.\<close>

datatype json = JV jv | JO "(string \<times> json) list" | JA "json list"

definition obj :: "doc \<Rightarrow> json" where
  "obj d = JO (map (\<lambda>(k, v). (k, JV v)) d)"

definition arr :: "doc list \<Rightarrow> json" where
  "arr ds = JA (map obj ds)"

text \<open>\<^verbatim>\<open>!v\<close> is \<open>\<not> truthy v\<close>; \<^verbatim>\<open>a || b\<close> is \<open>js_or a b\<close>.\<close>

fun truthy :: "jv \<Rightarrow> bool" where
  "truthy JUndef = False"
| "truthy JNull = False"
| "truthy (JBool b) = b"
| "truthy (JNum n) = (n \<noteq> 0)"
| "truthy (JStr s) = (s \<noteq> [])"
| "truthy (JDate t) = True"
| "truthy (JOid h) = True"

definition js_or :: "jv \<Rightarrow> jv \<Rightarrow> jv" where
  "js_or a b = (if truthy a then a else b)"

text \<open>
  \<^verbatim>\<open>a === b\<close>: primitives are equal when they are the same value of the same type; a date
  or an object id is an object, and two objects read from different places are never
  identical.
\<close>

fun strict_eq :: "jv \<Rightarrow> jv \<Rightarrow> bool" where
  "strict_eq (JDate t) b = False"
| "strict_eq (JOid h) b = False"
| "strict_eq a b = (a = b)"

text \<open>\<^verbatim>\<open>o.k\<close> reads a member (\<^verbatim>\<open>undefined\<close> when absent); \<^verbatim>\<open>o.k = v\<close> writes it.\<close>

definition getf :: "doc \<Rightarrow> string \<Rightarrow> jv" where
  "getf d k = (case map_of d k of None \<Rightarrow> JUndef | Some v \<Rightarrow> v)"

fun setf :: "string \<Rightarrow> jv \<Rightarrow> doc \<Rightarrow> doc" where
  "setf k v [] = [(k, v)]"
| "setf k v (p # d) = (if fst p = k then (k, v) # d else p # setf k v d)"

text \<open>\<^verbatim>\<open>s.split(" ")\<close>, \<^verbatim>\<open>xs[i]\<close> and \<^verbatim>\<open>s.startsWith(p)\<close>.\<close>

fun split_sp :: "string \<Rightarrow> string list" where
  "split_sp [] = [[]]"
| "split_sp (c # cs) =
     (if c = CHR '' '' then [] # split_sp cs
      else (case split_sp cs of [] \<Rightarrow> [[c]] | w # ws \<Rightarrow> (c # w) # ws))"

fun js_index :: "string list \<Rightarrow> nat \<Rightarrow> jv" where
  "js_index [] i = JUndef"
| "js_index (x # xs) 0 = JStr x"
| "js_index (x # xs) (Suc i) = js_index xs i"

definition startsWith :: "string \<Rightarrow> string \<Rightarrow> bool" where
  "startsWith s p = (take (length p) s = p)"

section \<open>The document store\<close>

text \<open>
  A collection is the list of its documents in insertion order. Every call of the driver
  can throw; the handlers catch whatever is thrown without looking at it, so the model
  keeps only the kind of failure. Whether the store answers during a request
  (\<open>store_up\<close>), the clock (\<open>now\<close>), the object id the driver generates for an insert
  (\<open>new_oid\<close>) and the identity provider's verdict on a token (\<open>verifyIdToken\<close>, \<open>None\<close>
  when it rejects) are the environment of a request.
\<close>

datatype store_error = Unreachable | DuplicateKey | ImmutableField | BSONError

record env =
  verifyIdToken :: "jv \<Rightarrow> doc option"
  now :: int
  new_oid :: string
  store_up :: bool

text \<open>The driver serialises an \<^verbatim>\<open>undefined\<close> member or query value as \<^verbatim>\<open>null\<close>.\<close>

fun bsonv :: "jv \<Rightarrow> jv" where
  "bsonv JUndef = JNull"
| "bsonv v = v"

definition bson :: "doc \<Rightarrow> doc" where
  "bson d = map (\<lambda>(k, v). (k, bsonv v)) d"

text \<open>
  An equality filter \<^verbatim>\<open>{k1: v1, ..}\<close>: every named field equals the given value, where
  \<^verbatim>\<open>null\<close> also matches a missing field.
\<close>

definition matches :: "doc \<Rightarrow> doc \<Rightarrow> bool" where
  "matches q d =
     list_all (\<lambda>(k, v). case map_of d k of None \<Rightarrow> bsonv v = JNull | Some w \<Rightarrow> w = bsonv v) q"

text \<open>
  Modelled from the spec: the coercion \<^verbatim>\<open>new ObjectId(s)\<close> of a path segment to the
  store's identifier type belongs to the MongoDB driver, which is not among the sources.
  A valid key is 24 hex characters; anything else makes the constructor throw. Two
  spellings of the same bytes are the same identifier, so the digits are kept in lower
  case.
\<close>

definition is_hex :: "char \<Rightarrow> bool" where
  "is_hex c = (c \<in> set ''0123456789abcdefABCDEF'')"

definition hex_lower :: "char \<Rightarrow> char" where
  "hex_lower c = (case map_of (zip ''ABCDEF'' ''abcdef'') c of None \<Rightarrow> c | Some l \<Rightarrow> l)"

definition ObjectId :: "string \<Rightarrow> store_error + string" where
  "ObjectId s =
     (if length s = 24 \<and> list_all is_hex s then Inr (map hex_lower s) else Inl BSONError)"

definition findOne :: "env \<Rightarrow> doc list \<Rightarrow> doc \<Rightarrow> store_error + doc option" where
  "findOne e c q = (if store_up e then Inr (find (matches q) c) else Inl Unreachable)"

definition find_toArray :: "env \<Rightarrow> doc list \<Rightarrow> doc \<Rightarrow> store_error + doc list" where
  "find_toArray e c q = (if store_up e then Inr (filter (matches q) c) else Inl Unreachable)"

text \<open>
  \<^verbatim>\<open>insertOne(d)\<close>: a document without an \<^verbatim>\<open>_id\<close> gets the generated one; an \<^verbatim>\<open>_id\<close> that
  the collection already holds is a duplicate-key error. The result is the inserted id
  and the new collection.
\<close>

definition prepare_doc :: "env \<Rightarrow> doc \<Rightarrow> doc" where
  "prepare_doc e d =
     bson (if bsonv (getf d ''_id'') = JNull then setf ''_id'' (JOid (new_oid e)) d else d)"

definition insertOne :: "env \<Rightarrow> doc list \<Rightarrow> doc \<Rightarrow> store_error + (jv \<times> doc list)" where
  "insertOne e c d =
     (if \<not> store_up e then Inl Unreachable
      else if list_ex (\<lambda>x. getf x ''_id'' = getf (prepare_doc e d) ''_id'') c
           then Inl DuplicateKey
           else Inr (getf (prepare_doc e d) ''_id'', c @ [prepare_doc e d]))"

text \<open>\<^verbatim>\<open>$set\<close> writes the given members one after the other.\<close>

definition set_fields :: "doc \<Rightarrow> doc \<Rightarrow> doc" where
  "set_fields s d = fold (\<lambda>(k, v). setf k v) s d"

fun replace_first :: "(doc \<Rightarrow> bool) \<Rightarrow> doc \<Rightarrow> doc list \<Rightarrow> doc list" where
  "replace_first P d' [] = []"
| "replace_first P d' (d # c) = (if P d then d' # c else d # replace_first P d' c)"

fun delete_first :: "(doc \<Rightarrow> bool) \<Rightarrow> doc list \<Rightarrow> doc list" where
  "delete_first P [] = []"
| "delete_first P (d # c) = (if P d then c else d # delete_first P c)"

record update_result =
  matchedCount :: nat
  modifiedCount :: nat

text \<open>
  \<^verbatim>\<open>updateOne(q, {$set: s}, {upsert})\<close>: the first match is rewritten (its \<^verbatim>\<open>_id\<close> cannot
  change, and a rewrite that changes nothing is not counted as a modification); with no
  match an upsert inserts the filter's fields with \<open>s\<close> written over them, and the store
  adds an \<^verbatim>\<open>_id\<close> when the new document has none.
\<close>

definition updateOne ::
  "env \<Rightarrow> doc list \<Rightarrow> doc \<Rightarrow> doc \<Rightarrow> bool \<Rightarrow> store_error + (update_result \<times> doc list)" where
  "updateOne e c q s upsert =
     (if \<not> store_up e then Inl Unreachable
      else case find (matches q) c of
        Some d \<Rightarrow>
          (let d' = set_fields (bson s) d
           in if getf d' ''_id'' \<noteq> getf d ''_id'' then Inl ImmutableField
              else Inr (\<lparr>matchedCount = 1, modifiedCount = (if d' = d then 0 else 1)\<rparr>,
                        replace_first (matches q) d' c))
      | None \<Rightarrow>
          (if upsert
           then (let d0 = bson (set_fields s q);
                     d1 = (if map_of d0 ''_id'' = None
                           then setf ''_id'' (JOid (new_oid e)) d0 else d0)
                 in if list_ex (\<lambda>x. getf x ''_id'' = getf d1 ''_id'') c then Inl DuplicateKey
                    else Inr (\<lparr>matchedCount = 0, modifiedCount = 0\<rparr>, c @ [d1]))
           else Inr (\<lparr>matchedCount = 0, modifiedCount = 0\<rparr>, c)))"

definition deleteOne :: "env \<Rightarrow> doc list \<Rightarrow> doc \<Rightarrow> store_error + (nat \<times> doc list)" where
  "deleteOne e c q =
     (if \<not> store_up e then Inl Unreachable
      else case find (matches q) c of
        None \<Rightarrow> Inr (0, c)
      | Some d \<Rightarrow> Inr (1, delete_first (matches q) c))"

record db =
  policies :: "doc list"
  applications :: "doc list"
  users :: "doc list"
  blogs :: "doc list"
  agents :: "doc list"
  newsletterSubscribers :: "doc list"

section \<open>Requests, responses and the middleware chain\<close>

record req =
  authorization :: "string option"
  params_id :: string
  body :: doc
  user :: "doc option"

record response =
  status :: nat
  payload :: json

text \<open>
  A handler either sends a response or throws outside every \<^verbatim>\<open>try\<close> of this code
  (\<open>Unhandled\<close>: what the framework then does is not decided by these sources).
\<close>

datatype outcome = Sent response | Unhandled

datatype mw_result = Next req | Stop response

type_synonym middleware = "env \<Rightarrow> db \<Rightarrow> req \<Rightarrow> mw_result"
type_synonym handler = "env \<Rightarrow> db \<Rightarrow> req \<Rightarrow> outcome \<times> db"

text \<open>
  \<^verbatim>\<open>app.METHOD(path, m1, .., mn, h)\<close>: each middleware either ends the request with its
  own response, and nothing after it runs, or calls \<^verbatim>\<open>next()\<close>.
\<close>

fun route :: "middleware list \<Rightarrow> handler \<Rightarrow> handler" where
  "route [] h e s r = h e s r"
| "route (m # ms) h e s r =
     (case m e s r of Stop resp \<Rightarrow> (Sent resp, s) | Next r' \<Rightarrow> route ms h e s r')"

definition msg :: "string \<Rightarrow> json" where
  "msg m = JO [(''message'', JV (JStr m))]"

definition smsg :: "bool \<Rightarrow> string \<Rightarrow> json" where
  "smsg ok m = JO [(''success'', JV (JBool ok)), (''message'', JV (JStr m))]"

definition reply :: "nat \<Rightarrow> json \<Rightarrow> response" where
  "reply code b = \<lparr>status = code, payload = b\<rparr>"

text \<open>\<^verbatim>\<open>verifyJWT\<close> of the main server.\<close>

definition verifyJWT :: middleware where
  "verifyJWT e s r =
     (case authorization r of
        None \<Rightarrow> Stop (reply 401 (msg ''Unauthorized''))
      | Some authHeader \<Rightarrow>
          if authHeader = [] then Stop (reply 401 (msg ''Unauthorized''))
          else (case verifyIdToken e (js_index (split_sp authHeader) 1) of
                  Some decoded \<Rightarrow> Next (r\<lparr>user := Some decoded\<rparr>)
                | None \<Rightarrow> Stop (reply 403 (msg ''Forbidden''))))"

text \<open>\<^verbatim>\<open>verifyToken\<close>, the same in the main server and in \<^verbatim>\<open>index.js\<close>.\<close>

definition verifyToken :: middleware where
  "verifyToken e s r =
     (case authorization r of
        None \<Rightarrow> Stop (reply 401 (msg ''Unauthorized, no token''))
      | Some authHeader \<Rightarrow>
          if \<not> startsWith authHeader ''Bearer ''
          then Stop (reply 401 (msg ''Unauthorized, no token''))
          else (case verifyIdToken e (js_index (split_sp authHeader) 1) of
                  Some decodedToken \<Rightarrow> Next (r\<lparr>user := Some decodedToken\<rparr>)
                | None \<Rightarrow> Stop (reply 401 (msg ''Unauthorized, invalid token''))))"

text \<open>
  \<^verbatim>\<open>req.user.email\<close> and the like: reading a member of \<^verbatim>\<open>req.user\<close> before a middleware
  has set it throws a TypeError.
\<close>

definition user_field :: "req \<Rightarrow> string \<Rightarrow> jv option" where
  "user_field r k = (case user r of None \<Rightarrow> None | Some u \<Rightarrow> Some (getf u k))"

text \<open>\<^verbatim>\<open>verifyAdmin\<close> and \<^verbatim>\<open>verifyAgent\<close>: one lookup in the role store, no write.\<close>

definition verifyAdmin :: middleware where
  "verifyAdmin e s r =
     (case user_field r ''email'' of
        None \<Rightarrow> Stop (reply 500 (msg ''Server error during admin verification''))
      | Some email \<Rightarrow>
          (case findOne e (users s) [(''email'', email)] of
             Inl err \<Rightarrow> Stop (reply 500 (msg ''Server error during admin verification''))
           | Inr None \<Rightarrow> Stop (reply 403 (msg ''Forbidden: Admin access required''))
           | Inr (Some u) \<Rightarrow>
               if \<not> strict_eq (getf u ''role'') (JStr ''admin'')
               then Stop (reply 403 (msg ''Forbidden: Admin access required''))
               else Next r))"

definition verifyAgent :: middleware where
  "verifyAgent e s r =
     (case user_field r ''email'' of
        None \<Rightarrow> Stop (reply 500 (msg ''Server error during agent verification''))
      | Some email \<Rightarrow>
          (case findOne e (users s) [(''email'', email)] of
             Inl err \<Rightarrow> Stop (reply 500 (msg ''Server error during agent verification''))
           | Inr None \<Rightarrow> Stop (reply 403 (msg ''Forbidden: Agent access required''))
           | Inr (Some u) \<Rightarrow>
               if \<not> strict_eq (getf u ''role'') (JStr ''agent'')
               then Stop (reply 403 (msg ''Forbidden: Agent access required''))
               else Next r))"

section \<open>The main server's routes\<close>

text \<open>
  Each handler is the body of the arrow function registered for the path; a \<^verbatim>\<open>try\<close> block
  that catches everything turns any store error, bad identifier or TypeError into the
  handler's fixed 500 response.
\<close>

definition fail500 :: "string \<Rightarrow> db \<Rightarrow> outcome \<times> db" where
  "fail500 m s = (Sent (reply 500 (msg m)), s)"

definition sfail500 :: "string \<Rightarrow> db \<Rightarrow> outcome \<times> db" where
  "sfail500 m s = (Sent (reply 500 (smsg False m)), s)"

text \<open>\<^verbatim>\<open>GET /policies/:id\<close> (the same handler in all four server files).\<close>

definition get_policy :: handler where
  "get_policy e s r =
     (case ObjectId (params_id r) of
        Inl err \<Rightarrow> fail500 ''Failed to fetch policy'' s
      | Inr oid \<Rightarrow>
          (case findOne e (policies s) [(''_id'', JOid oid)] of
             Inl err \<Rightarrow> fail500 ''Failed to fetch policy'' s
           | Inr None \<Rightarrow> (Sent (reply 404 (msg ''Policy not found'')), s)
           | Inr (Some policy) \<Rightarrow> (Sent (reply 200 (obj policy)), s)))"

text \<open>\<^verbatim>\<open>POST /users\<close>: the profile upsert.\<close>

definition post_users :: handler where
  "post_users e s r =
     (let userData = body r in
      if \<not> truthy (getf userData ''email'') \<or> \<not> truthy (getf userData ''name'')
      then (Sent (reply 400 (msg ''Name and Email are required'')), s)
      else
        let userData = (if \<not> truthy (getf userData ''role'')
                        then setf ''role'' (JStr ''user'') userData else userData)
        in case updateOne e (users s) [(''email'', getf userData ''email'')] userData True of
             Inl err \<Rightarrow> fail500 ''Failed to create or update user'' s
           | Inr (result, c) \<Rightarrow>
               (Sent (reply 200 (JO [(''success'', JV (JBool True)), (''data'', obj userData)])),
                s\<lparr>users := c\<rparr>))"

text \<open>
  \<^verbatim>\<open>POST /agents\<close>, \<^verbatim>\<open>PATCH /agents/:id/status\<close> and \<^verbatim>\<open>DELETE /agents/:id\<close>; \<open>status_ok\<close>
  is \<^verbatim>\<open>["approved", "pending", "disapproved"].includes(status)\<close>.
\<close>

definition h_post_agents :: handler where
  "h_post_agents e s r =
     (let agentData = body r in
      if \<not> truthy (getf agentData ''name'') \<or> \<not> truthy (getf agentData ''email'')
         \<or> \<not> truthy (getf agentData ''district'')
      then (Sent (reply 400 (msg ''Name, Email & District are required'')), s)
      else case findOne e (agents s) [(''email'', getf agentData ''email'')] of
             Inl err \<Rightarrow> fail500 ''Failed to submit agent request'' s
           | Inr (Some existingAgent) \<Rightarrow>
               (Sent (reply 409 (smsg False ''You have already submitted an agent request'')), s)
           | Inr None \<Rightarrow>
               (case user_field r ''email'' of
                  None \<Rightarrow> fail500 ''Failed to submit agent request'' s
                | Some email \<Rightarrow>
                    (case insertOne e (agents s)
                            (setf ''requestedBy'' email
                              (setf ''created_at'' (JDate (now e))
                                (setf ''status'' (JStr ''pending'') agentData))) of
                       Inl err \<Rightarrow> fail500 ''Failed to submit agent request'' s
                     | Inr (insertedId, c) \<Rightarrow>
                         (Sent (reply 201 (JO [(''success'', JV (JBool True)),
                                               (''message'', JV (JStr ''Agent request submitted'')),
                                               (''insertedId'', JV insertedId)])),
                          s\<lparr>agents := c\<rparr>))))"

definition post_agents :: handler where
  "post_agents = route [verifyToken] h_post_agents"

definition status_ok :: "jv \<Rightarrow> bool" where
  "status_ok st = (st \<in> set [JStr ''approved'', JStr ''pending'', JStr ''disapproved''])"

definition patch_agent_status :: handler where
  "patch_agent_status e s r =
     (let st = getf (body r) ''status'' in
      if \<not> status_ok st
      then (Sent (reply 400 (smsg False ''Invalid status value'')), s)
      else case ObjectId (params_id r) of
             Inl err \<Rightarrow> sfail500 ''Failed to update agent'' s
           | Inr oid \<Rightarrow>
               (case updateOne e (agents s) [(''_id'', JOid oid)] [(''status'', st)] False of
                  Inl err \<Rightarrow> sfail500 ''Failed to update agent'' s
                | Inr (result, c) \<Rightarrow>
                    if modifiedCount result = 1
                    then (Sent (reply 200 (smsg True ''Agent status updated'')), s\<lparr>agents := c\<rparr>)
                    else (Sent (reply 404 (smsg False ''Agent not found'')), s\<lparr>agents := c\<rparr>)))"

definition delete_agent :: handler where
  "delete_agent e s r =
     (case ObjectId (params_id r) of
        Inl err \<Rightarrow> sfail500 ''Failed to delete agent'' s
      | Inr oid \<Rightarrow>
          (case deleteOne e (agents s) [(''_id'', JOid oid)] of
             Inl err \<Rightarrow> sfail500 ''Failed to delete agent'' s
           | Inr (deletedCount, c) \<Rightarrow>
               if deletedCount = 1
               then (Sent (reply 200 (smsg True ''Agent deleted successfully'')), s\<lparr>agents := c\<rparr>)
               else (Sent (reply 404 (smsg False ''Agent not found'')), s\<lparr>agents := c\<rparr>)))"

text \<open>
  \<^verbatim>\<open>GET /all\<close> and \<^verbatim>\<open>PATCH /assign/:id\<close>, behind \<^verbatim>\<open>verifyJWT\<close>; neither handler has a
  \<^verbatim>\<open>try\<close>.
\<close>

definition h_get_all :: handler where
  "h_get_all e s r =
     (case find_toArray e (applications s) [] of
        Inl err \<Rightarrow> (Unhandled, s)
      | Inr apps \<Rightarrow> (Sent (reply 200 (arr apps)), s))"

definition get_all :: handler where
  "get_all = route [verifyJWT] h_get_all"

definition h_patch_assign :: handler where
  "h_patch_assign e s r =
     (case ObjectId (params_id r) of
        Inl err \<Rightarrow> (Unhandled, s)
      | Inr oid \<Rightarrow>
          (case updateOne e (applications s) [(''_id'', JOid oid)]
                  [(''assignedAgent'', getf (body r) ''agentEmail''),
                   (''status'', JStr ''Assigned'')] False of
             Inl err \<Rightarrow> (Unhandled, s)
           | Inr (result, c) \<Rightarrow>
               (Sent (reply 200 (JO [(''acknowledged'', JV (JBool True)),
                                     (''modifiedCount'', JV (JNum (int (modifiedCount result)))),
                                     (''upsertedId'', JV JNull),
                                     (''upsertedCount'', JV (JNum 0)),
                                     (''matchedCount'', JV (JNum (int (matchedCount result))))])),
                s\<lparr>applications := c\<rparr>)))"

definition patch_assign :: handler where
  "patch_assign = route [verifyJWT] h_patch_assign"

text \<open>The application routes.\<close>

definition h_patch_applications_reject :: handler where
  "h_patch_applications_reject e s r =
     (case ObjectId (params_id r) of
        Inl err \<Rightarrow> fail500 ''Failed to reject application'' s
      | Inr oid \<Rightarrow>
          (case updateOne e (applications s) [(''_id'', JOid oid)]
                  [(''status'', JStr ''Rejected''), (''rejectedAt'', JDate (now e))] False of
             Inl err \<Rightarrow> fail500 ''Failed to reject application'' s
           | Inr (result, c) \<Rightarrow>
               if matchedCount result = 0
               then (Sent (reply 404 (msg ''Application not found'')), s\<lparr>applications := c\<rparr>)
               else (Sent (reply 200 (JO [(''success'', JV (JBool True)),
                                          (''message'', JV (JStr ''Application rejected'')),
                                          (''modifiedCount'',
                                           JV (JNum (int (modifiedCount result))))])),
                     s\<lparr>applications := c\<rparr>)))"

definition patch_applications_reject :: handler where
  "patch_applications_reject = route [verifyToken, verifyAdmin] h_patch_applications_reject"

definition h_post_applications :: handler where
  "h_post_applications e s r =
     (case user_field r ''email'' of
        None \<Rightarrow> fail500 ''Failed to create application'' s
      | Some email \<Rightarrow>
          (case insertOne e (applications s)
                  (setf ''applicationDate'' (JDate (now e))
                    (setf ''status'' (JStr ''pending'')
                      (setf ''userEmail'' email (body r)))) of
             Inl err \<Rightarrow> fail500 ''Failed to create application'' s
           | Inr (insertedId, c) \<Rightarrow>
               (Sent (reply 201 (JO [(''insertedId'', JV insertedId)])), s\<lparr>applications := c\<rparr>)))"

definition post_applications :: handler where
  "post_applications = route [verifyToken] h_post_applications"

definition h_patch_application_status :: handler where
  "h_patch_application_status e s r =
     (case ObjectId (params_id r) of
        Inl err \<Rightarrow> sfail500 ''Failed to update application status'' s
      | Inr oid \<Rightarrow>
          (case user_field r ''email'' of
             None \<Rightarrow> sfail500 ''Failed to update application status'' s
           | Some email \<Rightarrow>
               (case findOne e (applications s) [(''_id'', JOid oid), (''assignedAgent'', email)] of
                  Inl err \<Rightarrow> sfail500 ''Failed to update application status'' s
                | Inr None \<Rightarrow>
                    (Sent (reply 404 (smsg False ''Application not found or not assigned to you'')), s)
                | Inr (Some application) \<Rightarrow>
                    (case updateOne e (applications s) [(''_id'', JOid oid)]
                            [(''status'', getf (body r) ''status'')] False of
                       Inl err \<Rightarrow> sfail500 ''Failed to update application status'' s
                     | Inr (result, c) \<Rightarrow>
                         if modifiedCount result = 1
                         then (Sent (reply 200 (smsg True ''Application status updated successfully'')),
                               s\<lparr>applications := c\<rparr>)
                         else (Sent (reply 404 (smsg False ''Application not found'')),
                               s\<lparr>applications := c\<rparr>)))))"

definition patch_application_status :: handler where
  "patch_application_status = route [verifyToken, verifyAgent] h_patch_application_status"

text \<open>
  The ownership test of the application handlers:
  \<^verbatim>\<open>application.userEmail !== req.user.email && req.user.role !== "admin"\<close>, where
  \<^verbatim>\<open>req.user\<close> is the decoded token.
\<close>

definition not_owner_nor_admin :: "doc \<Rightarrow> doc \<Rightarrow> bool" where
  "not_owner_nor_admin application u =
     (\<not> strict_eq (getf application ''userEmail'') (getf u ''email'')
      \<and> \<not> strict_eq (getf u ''role'') (JStr ''admin''))"

definition h_get_application :: handler where
  "h_get_application e s r =
     (case ObjectId (params_id r) of
        Inl err \<Rightarrow> fail500 ''Failed to fetch application'' s
      | Inr oid \<Rightarrow>
          (case findOne e (applications s) [(''_id'', JOid oid)] of
             Inl err \<Rightarrow> fail500 ''Failed to fetch application'' s
           | Inr None \<Rightarrow> (Sent (reply 404 (msg ''Application not found'')), s)
           | Inr (Some application) \<Rightarrow>
               (case user r of
                  None \<Rightarrow> fail500 ''Failed to fetch application'' s
                | Some u \<Rightarrow>
                    if not_owner_nor_admin application u
                    then (Sent (reply 403 (msg ''Forbidden'')), s)
                    else (Sent (reply 200 (obj application)), s))))"

definition get_application :: handler where
  "get_application = route [verifyToken] h_get_application"

definition h_delete_application :: handler where
  "h_delete_application e s r =
     (case ObjectId (params_id r) of
        Inl err \<Rightarrow> fail500 ''Failed to delete application'' s
      | Inr oid \<Rightarrow>
          (case findOne e (applications s) [(''_id'', JOid oid)] of
             Inl err \<Rightarrow> fail500 ''Failed to delete application'' s
           | Inr None \<Rightarrow> (Sent (reply 404 (msg ''Application not found'')), s)
           | Inr (Some application) \<Rightarrow>
               (case user r of
                  None \<Rightarrow> fail500 ''Failed to delete application'' s
                | Some u \<Rightarrow>
                    if not_owner_nor_admin application u
                    then (Sent (reply 403 (msg ''Forbidden'')), s)
                    else (case deleteOne e (applications s) [(''_id'', JOid oid)] of
                            Inl err \<Rightarrow> fail500 ''Failed to delete application'' s
                          | Inr (deletedCount, c) \<Rightarrow>
                              (Sent (reply 200 (JO [(''success'', JV (JBool True))])),
                               s\<lparr>applications := c\<rparr>)))))"

definition delete_application :: handler where
  "delete_application = route [verifyToken] h_delete_application"

text \<open>
  The blog routes. \<^verbatim>\<open>sort({publishDate: -1})\<close> orders by the store's comparison of
  values: by type first (null, numbers, strings, object ids, booleans, dates), then by
  value; documents with equal keys stay in collection order.
\<close>

fun bson_rank :: "jv \<Rightarrow> nat" where
  "bson_rank JUndef = 0"
| "bson_rank JNull = 0"
| "bson_rank (JNum n) = 1"
| "bson_rank (JStr x) = 2"
| "bson_rank (JOid h) = 3"
| "bson_rank (JBool b) = 4"
| "bson_rank (JDate t) = 5"

fun str_less :: "string \<Rightarrow> string \<Rightarrow> bool" where
  "str_less [] [] = False"
| "str_less [] (y # ys) = True"
| "str_less (x # xs) [] = False"
| "str_less (x # xs) (y # ys) =
     ((of_char x :: nat) < of_char y \<or> (x = y \<and> str_less xs ys))"

fun bson_less :: "jv \<Rightarrow> jv \<Rightarrow> bool" where
  "bson_less (JNum a) (JNum b) = (a < b)"
| "bson_less (JStr a) (JStr b) = str_less a b"
| "bson_less (JOid a) (JOid b) = str_less a b"
| "bson_less (JBool a) (JBool b) = (\<not> a \<and> b)"
| "bson_less (JDate a) (JDate b) = (a < b)"
| "bson_less a b = (bson_rank a < bson_rank b)"

fun insert_desc :: "string \<Rightarrow> doc \<Rightarrow> doc list \<Rightarrow> doc list" where
  "insert_desc k x [] = [x]"
| "insert_desc k x (y # ys) =
     (if bson_less (getf x k) (getf y k) then y # insert_desc k x ys else x # y # ys)"

definition sort_desc :: "string \<Rightarrow> doc list \<Rightarrow> doc list" where
  "sort_desc k ds = foldr (insert_desc k) ds []"

definition h_post_blogs :: handler where
  "h_post_blogs e s r =
     (case user r of
        None \<Rightarrow> fail500 ''Failed to create blog'' s
      | Some u \<Rightarrow>
          (case insertOne e (blogs s)
                  (setf ''publishDate'' (JDate (now e))
                    (setf ''authorName'' (js_or (getf u ''name'') (getf u ''email''))
                      (setf ''authorEmail'' (getf u ''email'') (body r)))) of
             Inl err \<Rightarrow> fail500 ''Failed to create blog'' s
           | Inr (insertedId, c) \<Rightarrow>
               (Sent (reply 201 (JO [(''success'', JV (JBool True)),
                                     (''insertedId'', JV insertedId)])),
                s\<lparr>blogs := c\<rparr>)))"

definition post_blogs :: handler where
  "post_blogs = route [verifyToken, verifyAgent] h_post_blogs"

text \<open>
  \<^verbatim>\<open>GET /blogs\<close> reads \<^verbatim>\<open>user.role\<close> of the looked-up record without testing the record
  for \<^verbatim>\<open>null\<close>: with no record the read throws, inside the handler's \<^verbatim>\<open>try\<close>.
\<close>

definition h_get_blogs :: handler where
  "h_get_blogs e s r =
     (case user_field r ''email'' of
        None \<Rightarrow> fail500 ''Failed to fetch blogs'' s
      | Some email \<Rightarrow>
          (case findOne e (users s) [(''email'', email)] of
             Inl err \<Rightarrow> fail500 ''Failed to fetch blogs'' s
           | Inr None \<Rightarrow> fail500 ''Failed to fetch blogs'' s
           | Inr (Some u) \<Rightarrow>
               (case find_toArray e (blogs s)
                       (if strict_eq (getf u ''role'') (JStr ''agent'')
                        then [(''authorEmail'', email)] else []) of
                  Inl err \<Rightarrow> fail500 ''Failed to fetch blogs'' s
                | Inr bs \<Rightarrow> (Sent (reply 200 (arr (sort_desc ''publishDate'' bs))), s))))"

definition get_blogs :: handler where
  "get_blogs = route [verifyToken] h_get_blogs"

definition h_delete_blog :: handler where
  "h_delete_blog e s r =
     (case ObjectId (params_id r) of
        Inl err \<Rightarrow> fail500 ''Failed to delete blog'' s
      | Inr oid \<Rightarrow>
          (case findOne e (blogs s) [(''_id'', JOid oid)] of
             Inl err \<Rightarrow> fail500 ''Failed to delete blog'' s
           | Inr None \<Rightarrow> (Sent (reply 404 (msg ''Blog not found'')), s)
           | Inr (Some blog) \<Rightarrow>
               (case user_field r ''email'' of
                  None \<Rightarrow> fail500 ''Failed to delete blog'' s
                | Some email \<Rightarrow>
                    if \<not> strict_eq (getf blog ''authorEmail'') email
                    then (Sent (reply 403 (msg ''Forbidden: Cannot delete others' blogs'')), s)
                    else (case deleteOne e (blogs s) [(''_id'', JOid oid)] of
                            Inl err \<Rightarrow> fail500 ''Failed to delete blog'' s
                          | Inr (deletedCount, c) \<Rightarrow>
                              (Sent (reply 200 (smsg True ''Blog deleted successfully'')),
                               s\<lparr>blogs := c\<rparr>)))))"

definition delete_blog :: handler where
  "delete_blog = route [verifyToken, verifyAgent] h_delete_blog"

text \<open>\<^verbatim>\<open>POST /subscribe\<close>.\<close>

definition post_subscribe :: handler where
  "post_subscribe e s r =
     (let name = getf (body r) ''name''; email = getf (body r) ''email'' in
      if \<not> truthy name \<or> \<not> truthy email
      then (Sent (reply 400 (msg ''Name and email are required'')), s)
      else case findOne e (newsletterSubscribers s) [(''email'', email)] of
             Inl err \<Rightarrow> fail500 ''Failed to process subscription'' s
           | Inr (Some existingSubscriber) \<Rightarrow>
               (Sent (reply 409 (msg ''This email is already subscribed'')), s)
           | Inr None \<Rightarrow>
               (case insertOne e (newsletterSubscribers s)
                       [(''name'', name), (''email'', email),
                        (''subscribedAt'', JDate (now e)), (''active'', JBool True)] of
                  Inl err \<Rightarrow> fail500 ''Failed to process subscription'' s
                | Inr (insertedId, c) \<Rightarrow>
                    (Sent (reply 201 (JO [(''success'', JV (JBool True)),
                                          (''message'', JV (JStr ''Thank you for subscribing!'')),
                                          (''subscriberId'', JV insertedId)])),
                     s\<lparr>newsletterSubscribers := c\<rparr>)))"

text \<open>The routing table of the main server, for the routes above.\<close>

datatype endpoint =
  GET_policies_id | POST_users | POST_agents | PATCH_agents_id_status | DELETE_agents_id
| GET_all | PATCH_assign_id | PATCH_applications_reject_id | POST_applications
| PATCH_applications_id_status | GET_applications_id | DELETE_applications_id
| POST_blogs | GET_blogs | DELETE_blogs_id | POST_subscribe

fun serve :: "endpoint \<Rightarrow> handler" where
  "serve GET_policies_id = get_policy"
| "serve POST_users = post_users"
| "serve POST_agents = post_agents"
| "serve PATCH_agents_id_status = patch_agent_status"
| "serve DELETE_agents_id = delete_agent"
| "serve GET_all = get_all"
| "serve PATCH_assign_id = patch_assign"
| "serve PATCH_applications_reject_id = patch_applications_reject"
| "serve POST_applications = post_applications"
| "serve PATCH_applications_id_status = patch_application_status"
| "serve GET_applications_id = get_application"
| "serve DELETE_applications_id = delete_application"
| "serve POST_blogs = post_blogs"
| "serve GET_blogs = get_blogs"
| "serve DELETE_blogs_id = delete_blog"
| "serve POST_subscribe = post_subscribe"

section \<open>The earlier server files\<close>



definition h_post_applications_index :: handler where
  "h_post_applications_index e s r =
     (case insertOne e (applications s) (body r) of
        Inl err \<Rightarrow> fail500 ''Failed to create application'' s
      | Inr (insertedId, c) \<Rightarrow>
          (Sent (reply 200 (JO [(''insertedId'', JV insertedId)])), s\<lparr>applications := c\<rparr>))"

definition post_applications_index :: handler where
  "post_applications_index = route [verifyToken] h_post_applications_index"



text \<open>The oldest server file: \<^verbatim>\<open>POST /users\<close> is a plain insert.\<close>

definition post_users_insert :: handler where
  "post_users_insert e s r =
     (case insertOne e (users s) (body r) of
        Inl err \<Rightarrow> sfail500 ''Failed to add user'' s
      | Inr (insertedId, c) \<Rightarrow>
          (Sent (reply 200 (JO [(''success'', JV (JBool True)), (''insertedId'', JV insertedId)])),
           s\<lparr>users := c\<rparr>))"

text \<open>
  The status of whatever a route sends lies in \<open>S\<close>; \<open>codes\<close> are the statuses that
  occur in the main server.
\<close>

definition sent_ok :: "nat set \<Rightarrow> outcome \<times> db \<Rightarrow> bool" where
  "sent_ok S x = (case fst x of Sent resp \<Rightarrow> status resp \<in> S | Unhandled \<Rightarrow> True)"


section \<open>A sample deployment\<close>

text \<open>
  An identity provider that knows four tokens and rejects everything else, a store with
  one record of each role (Jane has none), and requests built from a token, a path
  segment and a body. They serve the concrete evaluations below.
\<close>

definition idp :: "jv \<Rightarrow> doc option" where
  "idp t =
     (if t = JStr ''jane-token''
      then Some [(''email'', JStr ''jane@example.com''), (''name'', JStr ''Jane Doe'')]
      else if t = JStr ''bob-token''
      then Some [(''email'', JStr ''bob@example.com''), (''name'', JStr ''Bob'')]
      else if t = JStr ''ann-token''
      then Some [(''email'', JStr ''ann@example.com''), (''name'', JStr ''Ann'')]
      else if t = JStr ''root-token''
      then Some [(''email'', JStr ''root@example.com''), (''name'', JStr ''Root'')]
      else None)"

definition env0 :: env where
  "env0 = \<lparr>verifyIdToken = idp, now = 1700000000,
           new_oid = ''65a1b2c3d4e5f60718293a4b'', store_up = True\<rparr>"

definition env1 :: env where
  "env1 = \<lparr>verifyIdToken = idp, now = 1700000100,
           new_oid = ''65a1b2c3d4e5f60718293a4c'', store_up = True\<rparr>"

definition jane_application :: doc where
  "jane_application =
     [(''_id'', JOid ''65a1b2c3d4e5f60718293a01''), (''policyId'', JStr ''X''),
      (''aname'', JStr ''Jane Doe''), (''userEmail'', JStr ''jane@example.com''),
      (''status'', JStr ''pending''), (''applicationDate'', JDate 1690000000),
      (''assignedAgent'', JStr ''ann@example.com'')]"

definition ann_blog :: doc where
  "ann_blog =
     [(''_id'', JOid ''65a1b2c3d4e5f60718293a02''), (''title'', JStr ''Term life''),
      (''authorEmail'', JStr ''ann@example.com''), (''authorName'', JStr ''Ann''),
      (''publishDate'', JDate 1695000000)]"

definition db0 :: db where
  "db0 = \<lparr>policies = [],
          applications = [jane_application],
          users = [[(''_id'', JOid ''65a1b2c3d4e5f60718293a03''), (''email'', JStr ''bob@example.com''),
                    (''name'', JStr ''Bob''), (''role'', JStr ''user'')],
                   [(''_id'', JOid ''65a1b2c3d4e5f60718293a04''), (''email'', JStr ''ann@example.com''),
                    (''name'', JStr ''Ann''), (''role'', JStr ''agent'')],
                   [(''_id'', JOid ''65a1b2c3d4e5f60718293a05''), (''email'', JStr ''root@example.com''),
                    (''name'', JStr ''Root''), (''role'', JStr ''admin'')]],
          blogs = [ann_blog],
          agents = [],
          newsletterSubscribers = []\<rparr>"

definition bob_agent_request :: doc where
  "bob_agent_request =
     [(''name'', JStr ''Bob''), (''email'', JStr ''bob@example.com''),
      (''district'', JStr ''Dhaka''), (''status'', JStr ''pending''),
      (''created_at'', JDate 1699000000), (''requestedBy'', JStr ''bob@example.com''),
      (''_id'', JOid ''65a1b2c3d4e5f60718293a06'')]"

definition db1 :: db where
  "db1 = db0\<lparr>agents := [bob_agent_request],
             newsletterSubscribers :=
               [[(''name'', JStr ''Bob''), (''email'', JStr ''bob@example.com''),
                 (''subscribedAt'', JDate 1699000000), (''active'', JBool True),
                 (''_id'', JOid ''65a1b2c3d4e5f60718293a07'')]]\<rparr>"

definition request :: "string \<Rightarrow> string \<Rightarrow> doc \<Rightarrow> req" where
  "request token ident b =
     \<lparr>authorization = Some (''Bearer '' @ token), params_id = ident, body = b, user = None\<rparr>"

section \<open>Basic facts\<close>

lemma route_stop: "m e s r = Stop resp \<Longrightarrow> route (m # ms) h e s r = (Sent resp, s)"
  by simp

lemma status_reply [simp]: "status (reply c b) = c"
  by (simp add: reply_def)

lemma map_of_setf: "map_of (setf k v d) = (map_of d)(k \<mapsto> v)"
  by (induction d) (auto simp: fun_eq_iff)

lemma getf_setf: "getf (setf k v d) k' = (if k' = k then v else getf d k')"
  by (simp add: getf_def map_of_setf)

lemma map_of_bson: "map_of (bson d) k = map_option bsonv (map_of d k)"
  by (induction d) (auto simp: bson_def)

lemma getf_bson: "getf (bson d) k = (case map_of d k of None \<Rightarrow> JUndef | Some v \<Rightarrow> bsonv v)"
  by (simp add: getf_def map_of_bson split: option.splits)

lemma getf_bson_defined: "getf d k \<noteq> JUndef \<Longrightarrow> getf (bson d) k = bsonv (getf d k)"
  by (auto simp: getf_def map_of_bson split: option.splits)

lemma getf_prepare_doc: "k \<noteq> ''_id'' \<Longrightarrow> getf (prepare_doc e d) k = getf (bson d) k"
  by (simp add: prepare_doc_def getf_def map_of_bson map_of_setf)

lemma getf_set_fields_single: "getf (set_fields [(k, v)] d) k = v"
  by (simp add: set_fields_def getf_setf)

lemma insertOne_Inr:
  "insertOne e c d = Inr (i, c') \<Longrightarrow>
     store_up e \<and> c' = c @ [prepare_doc e d] \<and> i = getf (prepare_doc e d) ''_id''
     \<and> \<not> list_ex (\<lambda>x. getf x ''_id'' = i) c"
  by (auto simp: insertOne_def split: if_splits)

lemma list_all_replace_first:
  "list_all P c \<Longrightarrow> P d' \<Longrightarrow> list_all P (replace_first Q d' c)"
  by (induction c) auto

lemma list_all_delete_first: "list_all P c \<Longrightarrow> list_all P (delete_first Q c)"
  by (induction c) auto

lemma delete_first_none: "find P c = None \<Longrightarrow> delete_first P c = c"
  by (induction c) (auto split: if_splits)

lemma updateOne_no_upsert:
  "updateOne e c q s False = Inr (res, c') \<Longrightarrow>
     (\<exists>d. find (matches q) c = Some d \<and> c' = replace_first (matches q) (set_fields (bson s) d) c)
     \<or> (find (matches q) c = None \<and> c' = c)"
  by (auto simp: updateOne_def Let_def split: if_splits option.splits)

lemma deleteOne_Inr:
  "deleteOne e c q = Inr (n, c') \<Longrightarrow> c' = delete_first (matches q) c"
  by (auto simp: deleteOne_def delete_first_none split: if_splits option.splits)

text \<open>What \<^verbatim>\<open>verifyToken\<close> leaves to the rest of a chain.\<close>

lemma route_verifyToken_unchanged_or_next:
  "(\<exists>resp. route (verifyToken # ms) h e s r = (Sent resp, s) \<and> status resp = 401)
   \<or> (\<exists>a tok. authorization r = Some a \<and> startsWith a ''Bearer ''
         \<and> verifyIdToken e (js_index (split_sp a) 1) = Some tok
         \<and> route (verifyToken # ms) h e s r = route ms h e s (r\<lparr>user := Some tok\<rparr>))"
  by (simp add: verifyToken_def split: option.split)

lemma route_verifyToken_accepted:
  "authorization r = Some a \<Longrightarrow> startsWith a ''Bearer '' \<Longrightarrow>
   verifyIdToken e (js_index (split_sp a) 1) = Some tok \<Longrightarrow>
   route (verifyToken # ms) h e s r = route ms h e s (r\<lparr>user := Some tok\<rparr>)"
  by (simp add: verifyToken_def)

section \<open>Authentication\<close>

text \<open>
  C1, at an input where the claim fails. \<^verbatim>\<open>GET /all\<close> requires authentication through
  \<^verbatim>\<open>verifyJWT\<close>. A token that the identity provider rejects is answered with 403
  \<^verbatim>\<open>Forbidden\<close>, not 401; and a header that is not of the form \<^verbatim>\<open>Bearer <token>\<close> but whose
  second word is a good token reaches the handler.
\<close>

theorem verifyJWT_rejection_counterexample:
  "verifyIdToken env0 (JStr ''bad'') = None
   \<and> get_all env0 db0 (request ''bad'' [] [])
       = (Sent \<lparr>status = 403, payload = msg ''Forbidden''\<rparr>, db0)
   \<and> get_all env0 db0 \<lparr>authorization = Some ''Token jane-token'', params_id = [],
                         body = [], user = None\<rparr>
       = (Sent \<lparr>status = 200, payload = arr [jane_application]\<rparr>, db0)"
  by (simp add: get_all_def verifyJWT_def request_def env0_def idp_def h_get_all_def
      find_toArray_def db0_def matches_def reply_def)

text \<open>
  C1, amended. Whatever middleware and handler follow, a request is stopped by the
  authentication middleware, with the store untouched and the response fixed, as follows.
  Behind \<^verbatim>\<open>verifyToken\<close>: 401 when the Authorization header is absent or does not start
  with \<^verbatim>\<open>Bearer \<close>, and 401 when the identity provider rejects the presented token.
  Behind \<^verbatim>\<open>verifyJWT\<close>: 401 when the header is absent or empty, and 403 when the identity
  provider rejects the second word of the header. The right-hand sides do not mention the
  handler \<open>h\<close>: it does not run.
\<close>

theorem rejected_credentials_stop_the_chain:
  "(authorization r = None \<longrightarrow>
      route (verifyToken # ms) h e s r = (Sent (reply 401 (msg ''Unauthorized, no token'')), s))
   \<and> (authorization r = Some a \<and> \<not> startsWith a ''Bearer '' \<longrightarrow>
      route (verifyToken # ms) h e s r = (Sent (reply 401 (msg ''Unauthorized, no token'')), s))
   \<and> (authorization r = Some a \<and> startsWith a ''Bearer ''
        \<and> verifyIdToken e (js_index (split_sp a) 1) = None \<longrightarrow>
      route (verifyToken # ms) h e s r
        = (Sent (reply 401 (msg ''Unauthorized, invalid token'')), s))
   \<and> (authorization r = None \<or> authorization r = Some [] \<longrightarrow>
      route (verifyJWT # ms) h e s r = (Sent (reply 401 (msg ''Unauthorized'')), s))
   \<and> (authorization r = Some a \<and> a \<noteq> []
        \<and> verifyIdToken e (js_index (split_sp a) 1) = None \<longrightarrow>
      route (verifyJWT # ms) h e s r = (Sent (reply 403 (msg ''Forbidden'')), s))"
  by (auto simp: verifyToken_def verifyJWT_def)

text \<open>
  The amended C1 at concrete requests: \<^verbatim>\<open>POST /applications\<close> without a header, with a
  \<^verbatim>\<open>Basic\<close> header and with a rejected token, and \<^verbatim>\<open>GET /all\<close> without a header and with a
  rejected token.
\<close>

theorem rejected_credentials_stop_the_chain_witness:
  "post_applications env0 db0 \<lparr>authorization = None, params_id = [], body = [], user = None\<rparr>
     = (Sent (reply 401 (msg ''Unauthorized, no token'')), db0)
   \<and> post_applications env0 db0
        \<lparr>authorization = Some ''Basic jane-token'', params_id = [], body = [], user = None\<rparr>
     = (Sent (reply 401 (msg ''Unauthorized, no token'')), db0)
   \<and> post_applications env0 db0
        \<lparr>authorization = Some ''Bearer bad'', params_id = [], body = [], user = None\<rparr>
     = (Sent (reply 401 (msg ''Unauthorized, invalid token'')), db0)
   \<and> patch_assign env0 db0 \<lparr>authorization = None, params_id = [], body = [], user = None\<rparr>
     = (Sent (reply 401 (msg ''Unauthorized'')), db0)
   \<and> patch_assign env0 db0
        \<lparr>authorization = Some ''Bearer bad'', params_id = [], body = [], user = None\<rparr>
     = (Sent (reply 403 (msg ''Forbidden'')), db0)"
proof -
  let ?none = "\<lparr>authorization = None, params_id = [], body = [], user = None\<rparr>"
  let ?basic = "\<lparr>authorization = Some ''Basic jane-token'', params_id = [], body = [],
                 user = None\<rparr>"
  let ?bad = "\<lparr>authorization = Some ''Bearer bad'', params_id = [], body = [], user = None\<rparr>"
  have rej: "verifyIdToken env0 (js_index (split_sp ''Bearer bad'') 1) = None"
    by (simp add: env0_def idp_def)
  have 1: "post_applications env0 db0 ?none
             = (Sent (reply 401 (msg ''Unauthorized, no token'')), db0)"
    using rejected_credentials_stop_the_chain
      [where r = ?none and ms = "[]" and h = h_post_applications and e = env0 and s = db0]
    by (simp add: post_applications_def)
  have 2: "post_applications env0 db0 ?basic
             = (Sent (reply 401 (msg ''Unauthorized, no token'')), db0)"
    using rejected_credentials_stop_the_chain
      [where r = ?basic and a = "''Basic jane-token''" and ms = "[]"
         and h = h_post_applications and e = env0 and s = db0]
    by (simp add: post_applications_def startsWith_def)
  have 3: "post_applications env0 db0 ?bad
             = (Sent (reply 401 (msg ''Unauthorized, invalid token'')), db0)"
    using rej rejected_credentials_stop_the_chain
      [where r = ?bad and a = "''Bearer bad''" and ms = "[]"
         and h = h_post_applications and e = env0 and s = db0]
    by (simp add: post_applications_def startsWith_def)
  have 4: "patch_assign env0 db0 ?none = (Sent (reply 401 (msg ''Unauthorized'')), db0)"
    using rejected_credentials_stop_the_chain
      [where r = ?none and ms = "[]" and h = h_patch_assign and e = env0 and s = db0]
    by (simp add: patch_assign_def)
  have 5: "patch_assign env0 db0 ?bad = (Sent (reply 403 (msg ''Forbidden'')), db0)"
    using rej rejected_credentials_stop_the_chain
      [where r = ?bad and a = "''Bearer bad''" and ms = "[]"
         and h = h_patch_assign and e = env0 and s = db0]
    by (simp add: patch_assign_def)
  from 1 2 3 4 5 show ?thesis by blast
qed

section \<open>Role gates\<close>

text \<open>
  C2. With a token that the identity provider accepts and a role-store record \<open>u\<close> found
  for its email: if the record's role is \<^verbatim>\<open>admin\<close>, every route gated by \<^verbatim>\<open>verifyAgent\<close>
  answers 403; if it is \<^verbatim>\<open>agent\<close>, every route gated by \<^verbatim>\<open>verifyAdmin\<close> answers 403. In
  both cases the store is unchanged and the handler \<open>h\<close> does not run.
\<close>

theorem role_gates_are_disjoint:
  assumes "authorization r = Some a" and "startsWith a ''Bearer ''"
    and "verifyIdToken e (js_index (split_sp a) 1) = Some tok"
    and "findOne e (users s) [(''email'', getf tok ''email'')] = Inr (Some u)"
  shows "(getf u ''role'' = JStr ''admin'' \<longrightarrow>
           route (verifyToken # verifyAgent # ms) h e s r
             = (Sent (reply 403 (msg ''Forbidden: Agent access required'')), s))
       \<and> (getf u ''role'' = JStr ''agent'' \<longrightarrow>
           route (verifyToken # verifyAdmin # ms) h e s r
             = (Sent (reply 403 (msg ''Forbidden: Admin access required'')), s))"
  using assms by (simp add: verifyToken_def verifyAgent_def verifyAdmin_def user_field_def)

text \<open>
  C2 at concrete requests: the admin Root is refused on \<^verbatim>\<open>POST /blogs\<close> (agent only), the
  agent Ann on \<^verbatim>\<open>PATCH /applications/reject/:id\<close> (admin only).
\<close>

theorem role_gates_are_disjoint_witness:
  "post_blogs env0 db0 (request ''root-token'' [] [(''title'', JStr ''Hello'')])
     = (Sent (reply 403 (msg ''Forbidden: Agent access required'')), db0)
   \<and> patch_applications_reject env0 db0 (request ''ann-token'' ''65a1b2c3d4e5f60718293a01'' [])
     = (Sent (reply 403 (msg ''Forbidden: Admin access required'')), db0)"
proof -
  let ?root = "[(''_id'', JOid ''65a1b2c3d4e5f60718293a05''), (''email'', JStr ''root@example.com''),
                (''name'', JStr ''Root''), (''role'', JStr ''admin'')]"
  let ?ann = "[(''_id'', JOid ''65a1b2c3d4e5f60718293a04''), (''email'', JStr ''ann@example.com''),
               (''name'', JStr ''Ann''), (''role'', JStr ''agent'')]"
  let ?r1 = "request ''root-token'' [] [(''title'', JStr ''Hello'')]"
  let ?r2 = "request ''ann-token'' ''65a1b2c3d4e5f60718293a01'' []"
  have 1: "post_blogs env0 db0 ?r1
             = (Sent (reply 403 (msg ''Forbidden: Agent access required'')), db0)"
    using role_gates_are_disjoint
      [where r = ?r1 and a = "''Bearer root-token''" and e = env0 and s = db0 and u = ?root
         and tok = "[(''email'', JStr ''root@example.com''), (''name'', JStr ''Root'')]"
         and ms = "[]" and h = h_post_blogs]
    by (simp add: post_blogs_def request_def startsWith_def env0_def idp_def findOne_def
        db0_def matches_def getf_def)
  have 2: "patch_applications_reject env0 db0 ?r2
             = (Sent (reply 403 (msg ''Forbidden: Admin access required'')), db0)"
    using role_gates_are_disjoint
      [where r = ?r2 and a = "''Bearer ann-token''" and e = env0 and s = db0 and u = ?ann
         and tok = "[(''email'', JStr ''ann@example.com''), (''name'', JStr ''Ann'')]"
         and ms = "[]" and h = h_patch_applications_reject]
    by (simp add: patch_applications_reject_def request_def startsWith_def env0_def idp_def
        findOne_def db0_def matches_def getf_def)
  from 1 2 show ?thesis by blast
qed

text \<open>
  C3, at the input where the code departs from it. Jane has a valid token and no record
  in the role store. \<^verbatim>\<open>GET /blogs\<close> resolves her role by reading \<^verbatim>\<open>user.role\<close> of the
  missing record and answers 500, while the agent gate of \<^verbatim>\<open>POST /blogs\<close>, which tests
  \<^verbatim>\<open>!user\<close> first, answers 403 for the same token.
\<close>

theorem get_blogs_without_record_is_500:
  "find (matches [(''email'', JStr ''jane@example.com'')]) (users db0) = None
   \<and> get_blogs env0 db0 (request ''jane-token'' [] [])
       = (Sent \<lparr>status = 500, payload = msg ''Failed to fetch blogs''\<rparr>, db0)
   \<and> post_blogs env0 db0 (request ''jane-token'' [] [])
       = (Sent \<lparr>status = 403, payload = msg ''Forbidden: Agent access required''\<rparr>, db0)"
  by (simp add: get_blogs_def h_get_blogs_def post_blogs_def verifyToken_def verifyAgent_def
      request_def env0_def idp_def startsWith_def user_field_def findOne_def db0_def
      matches_def getf_def fail500_def reply_def)

section \<open>Path identifiers\<close>






section \<open>Agent requests\<close>

lemma h_post_agents_cases:
  "(\<exists>resp. h_post_agents e s r = (Sent resp, s) \<and> status resp \<in> {400, 409, 500})
   \<or> (\<exists>email i c.
         insertOne e (agents s)
            (setf ''requestedBy'' email
              (setf ''created_at'' (JDate (now e))
                (setf ''status'' (JStr ''pending'') (body r)))) = Inr (i, c)
         \<and> h_post_agents e s r
             = (Sent (reply 201 (JO [(''success'', JV (JBool True)),
                                     (''message'', JV (JStr ''Agent request submitted'')),
                                     (''insertedId'', JV i)])), s\<lparr>agents := c\<rparr>))"
  by (simp add: h_post_agents_def Let_def fail500_def split: sum.split option.split) blast

lemma h_post_agents_created:
  assumes "h_post_agents e s r = (Sent resp, s')" and "status resp = 201"
  shows "\<exists>d. agents s' = agents s @ [d] \<and> getf d ''status'' = JStr ''pending''"
proof -
  from h_post_agents_cases [of e s r] assms obtain email i c where
    ins: "insertOne e (agents s)
            (setf ''requestedBy'' email
              (setf ''created_at'' (JDate (now e))
                (setf ''status'' (JStr ''pending'') (body r)))) = Inr (i, c)"
    and s': "s' = s\<lparr>agents := c\<rparr>"
    by auto
  let ?d = "setf ''requestedBy'' email
              (setf ''created_at'' (JDate (now e))
                (setf ''status'' (JStr ''pending'') (body r)))"
  have "getf ?d ''status'' = JStr ''pending''" by (simp add: getf_setf)
  then have "getf (prepare_doc e ?d) ''status'' = JStr ''pending''"
    by (simp add: getf_prepare_doc getf_bson_defined)
  with insertOne_Inr [OF ins] s' show ?thesis by auto
qed

lemma post_agents_created:
  assumes "post_agents e s r = (Sent resp, s')" and "status resp = 201"
  shows "\<exists>d. agents s' = agents s @ [d] \<and> getf d ''status'' = JStr ''pending''"
proof -
  from route_verifyToken_unchanged_or_next [of "[]" h_post_agents e s r] assms
  obtain tok where "h_post_agents e s (r\<lparr>user := Some tok\<rparr>) = (Sent resp, s')"
    by (auto simp: post_agents_def)
  from h_post_agents_created [OF this assms(2)] show ?thesis .
qed

lemma post_agents_keeps_status:
  assumes "list_all (\<lambda>d. status_ok (getf d ''status'')) (agents s)"
  shows "list_all (\<lambda>d. status_ok (getf d ''status'')) (agents (snd (post_agents e s r)))"
proof (cases "post_agents e s r")
  case (Pair out s')
  from route_verifyToken_unchanged_or_next [of "[]" h_post_agents e s r]
  consider "s' = s"
    | tok where "h_post_agents e s (r\<lparr>user := Some tok\<rparr>) = (out, s')"
    using Pair by (auto simp: post_agents_def)
  then show ?thesis
  proof cases
    case 1
    with assms Pair show ?thesis by simp
  next
    case 2
    from h_post_agents_cases [of e s "r\<lparr>user := Some tok\<rparr>"] 2
    consider "s' = s" | resp where "out = Sent resp" "status resp = 201"
      by auto
    then show ?thesis
    proof cases
      case 1
      with assms Pair show ?thesis by simp
    next
      case b: 2
      from h_post_agents_created [OF 2 [unfolded b(1)] b(2)] obtain d where
        "agents s' = agents s @ [d]" "getf d ''status'' = JStr ''pending''" by auto
      with assms Pair show ?thesis by (simp add: status_ok_def)
    qed
  qed
qed

lemma patch_agent_status_keeps_status:
  assumes "list_all (\<lambda>d. status_ok (getf d ''status'')) (agents s)"
  shows "list_all (\<lambda>d. status_ok (getf d ''status'')) (agents (snd (patch_agent_status e s r)))"
proof (cases "status_ok (getf (body r) ''status'')")
  case False
  with assms show ?thesis by (simp add: patch_agent_status_def)
next
  case True
  then have b: "bson [(''status'', getf (body r) ''status'')]
                  = [(''status'', getf (body r) ''status'')]"
    by (auto simp: bson_def status_ok_def)
  show ?thesis
  proof (cases "ObjectId (params_id r)")
    case (Inl err)
    with True assms show ?thesis by (simp add: patch_agent_status_def sfail500_def)
  next
    case (Inr oid)
    show ?thesis
    proof (cases "updateOne e (agents s) [(''_id'', JOid oid)]
                    [(''status'', getf (body r) ''status'')] False")
      case (Inl err)
      with True Inr assms show ?thesis by (simp add: patch_agent_status_def sfail500_def)
    next
      case upd: (Inr p)
      obtain res c where p: "p = (res, c)" by (cases p)
      from updateOne_no_upsert [OF upd [unfolded p]] assms True b
      have "list_all (\<lambda>d. status_ok (getf d ''status'')) c"
        by (auto simp: getf_set_fields_single intro!: list_all_replace_first)
      with True Inr upd p show ?thesis by (simp add: patch_agent_status_def)
    qed
  qed
qed

lemma delete_agent_keeps_status:
  assumes "list_all (\<lambda>d. status_ok (getf d ''status'')) (agents s)"
  shows "list_all (\<lambda>d. status_ok (getf d ''status'')) (agents (snd (delete_agent e s r)))"
proof (cases "ObjectId (params_id r)")
  case (Inl err)
  with assms show ?thesis by (simp add: delete_agent_def sfail500_def)
next
  case (Inr oid)
  show ?thesis
  proof (cases "deleteOne e (agents s) [(''_id'', JOid oid)]")
    case (Inl err)
    with Inr assms show ?thesis by (simp add: delete_agent_def sfail500_def)
  next
    case del: (Inr p)
    obtain n c where p: "p = (n, c)" by (cases p)
    from deleteOne_Inr [OF del [unfolded p]] assms
    have "list_all (\<lambda>d. status_ok (getf d ''status'')) c"
      by (simp add: list_all_delete_first)
    with Inr del p show ?thesis by (simp add: delete_agent_def)
  qed
qed

text \<open>No other route of the main server writes to the agents collection.\<close>

lemma agents_route_cons:
  "(\<And>r'. agents (snd (route ms h e s r')) = agents s) \<Longrightarrow>
   agents (snd (route (m # ms) h e s r)) = agents s"
  by (simp split: mw_result.split)

lemma agents_untouched:
  "agents (snd (get_policy e s r)) = agents s"
  "agents (snd (post_users e s r)) = agents s"
  "agents (snd (h_get_all e s r)) = agents s"
  "agents (snd (h_patch_assign e s r)) = agents s"
  "agents (snd (h_patch_applications_reject e s r)) = agents s"
  "agents (snd (h_post_applications e s r)) = agents s"
  "agents (snd (h_patch_application_status e s r)) = agents s"
  "agents (snd (h_get_application e s r)) = agents s"
  "agents (snd (h_delete_application e s r)) = agents s"
  "agents (snd (h_post_blogs e s r)) = agents s"
  "agents (snd (h_get_blogs e s r)) = agents s"
  "agents (snd (h_delete_blog e s r)) = agents s"
  "agents (snd (post_subscribe e s r)) = agents s"
  by (simp_all add: get_policy_def post_users_def h_get_all_def h_patch_assign_def
      h_patch_applications_reject_def h_post_applications_def h_patch_application_status_def
      h_get_application_def h_delete_application_def h_post_blogs_def h_get_blogs_def
      h_delete_blog_def post_subscribe_def Let_def fail500_def sfail500_def
      split: sum.split option.split prod.split)

lemma serve_keeps_agent_status:
  assumes "list_all (\<lambda>d. status_ok (getf d ''status'')) (agents s)"
  shows "list_all (\<lambda>d. status_ok (getf d ''status'')) (agents (snd (serve ep e s r)))"
proof (cases ep)
  case POST_agents
  with assms show ?thesis by (simp add: post_agents_keeps_status)
next
  case PATCH_agents_id_status
  with assms show ?thesis by (simp add: patch_agent_status_keeps_status)
next
  case DELETE_agents_id
  with assms show ?thesis by (simp add: delete_agent_keeps_status)
next
  case GET_policies_id
  with assms show ?thesis by (simp add: agents_untouched)
next
  case POST_users
  with assms show ?thesis by (simp add: agents_untouched)
next
  case POST_subscribe
  with assms show ?thesis by (simp add: agents_untouched)
next
  case GET_all
  have "agents (snd (get_all e s r)) = agents s"
    unfolding get_all_def by (intro agents_route_cons) (simp add: agents_untouched)
  with GET_all assms show ?thesis by simp
next
  case PATCH_assign_id
  have "agents (snd (patch_assign e s r)) = agents s"
    unfolding patch_assign_def by (intro agents_route_cons) (simp add: agents_untouched)
  with PATCH_assign_id assms show ?thesis by simp
next
  case PATCH_applications_reject_id
  have "agents (snd (patch_applications_reject e s r)) = agents s"
    unfolding patch_applications_reject_def
    by (intro agents_route_cons) (simp add: agents_untouched)
  with PATCH_applications_reject_id assms show ?thesis by simp
next
  case POST_applications
  have "agents (snd (post_applications e s r)) = agents s"
    unfolding post_applications_def by (intro agents_route_cons) (simp add: agents_untouched)
  with POST_applications assms show ?thesis by simp
next
  case PATCH_applications_id_status
  have "agents (snd (patch_application_status e s r)) = agents s"
    unfolding patch_application_status_def
    by (intro agents_route_cons) (simp add: agents_untouched)
  with PATCH_applications_id_status assms show ?thesis by simp
next
  case GET_applications_id
  have "agents (snd (get_application e s r)) = agents s"
    unfolding get_application_def by (intro agents_route_cons) (simp add: agents_untouched)
  with GET_applications_id assms show ?thesis by simp
next
  case DELETE_applications_id
  have "agents (snd (delete_application e s r)) = agents s"
    unfolding delete_application_def by (intro agents_route_cons) (simp add: agents_untouched)
  with DELETE_applications_id assms show ?thesis by simp
next
  case POST_blogs
  have "agents (snd (post_blogs e s r)) = agents s"
    unfolding post_blogs_def by (intro agents_route_cons) (simp add: agents_untouched)
  with POST_blogs assms show ?thesis by simp
next
  case GET_blogs
  have "agents (snd (get_blogs e s r)) = agents s"
    unfolding get_blogs_def by (intro agents_route_cons) (simp add: agents_untouched)
  with GET_blogs assms show ?thesis by simp
next
  case DELETE_blogs_id
  have "agents (snd (delete_blog e s r)) = agents s"
    unfolding delete_blog_def by (intro agents_route_cons) (simp add: agents_untouched)
  with DELETE_blogs_id assms show ?thesis by simp
qed

text \<open>
  C10. The agents collection keeps the invariant that every record's status is one of
  \<^verbatim>\<open>pending\<close>, \<^verbatim>\<open>approved\<close>, \<^verbatim>\<open>disapproved\<close> under every route of the main server; a
  \<^verbatim>\<open>POST /agents\<close> that answers 201 has appended exactly one record, whose status is
  \<^verbatim>\<open>pending\<close> whatever the body said; and \<^verbatim>\<open>PATCH /agents/:id/status\<close> with any other
  status value answers 400 and leaves the store unchanged.
\<close>

theorem agent_status_invariant:
  "(list_all (\<lambda>d. status_ok (getf d ''status'')) (agents s) \<longrightarrow>
      list_all (\<lambda>d. status_ok (getf d ''status'')) (agents (snd (serve ep e s r))))
   \<and> (post_agents e s r = (Sent resp, s') \<and> status resp = 201 \<longrightarrow>
      (\<exists>d. agents s' = agents s @ [d] \<and> getf d ''status'' = JStr ''pending''))
   \<and> (\<not> status_ok (getf (body r) ''status'') \<longrightarrow>
      patch_agent_status e s r = (Sent (reply 400 (smsg False ''Invalid status value'')), s))"
proof (intro conjI impI)
  assume "list_all (\<lambda>d. status_ok (getf d ''status'')) (agents s)"
  then show "list_all (\<lambda>d. status_ok (getf d ''status'')) (agents (snd (serve ep e s r)))"
    by (rule serve_keeps_agent_status)
next
  assume "post_agents e s r = (Sent resp, s') \<and> status resp = 201"
  then show "\<exists>d. agents s' = agents s @ [d] \<and> getf d ''status'' = JStr ''pending''"
    using post_agents_created by blast
next
  assume "\<not> status_ok (getf (body r) ''status'')"
  then show "patch_agent_status e s r
               = (Sent (reply 400 (smsg False ''Invalid status value'')), s)"
    by (simp add: patch_agent_status_def)
qed

text \<open>
  C10 at concrete requests: approving Bob's stored agent request keeps the invariant;
  Ann's new request, submitted with status \<^verbatim>\<open>approved\<close> in the body, is stored as
  \<^verbatim>\<open>pending\<close>; the status \<^verbatim>\<open>vip\<close> is refused.
\<close>

theorem agent_status_invariant_witness:
  "list_all (\<lambda>d. status_ok (getf d ''status''))
     (agents (snd (serve PATCH_agents_id_status env0 db1
        (request [] ''65a1b2c3d4e5f60718293a06'' [(''status'', JStr ''approved'')]))))
   \<and> (\<exists>d. agents (snd (post_agents env0 db1
               (request ''ann-token'' []
                  [(''name'', JStr ''Ann''), (''email'', JStr ''ann@example.com''),
                   (''district'', JStr ''Sylhet''), (''status'', JStr ''approved'')])))
             = agents db1 @ [d]
           \<and> getf d ''status'' = JStr ''pending'')
   \<and> patch_agent_status env0 db1
        (request [] ''65a1b2c3d4e5f60718293a06'' [(''status'', JStr ''vip'')])
       = (Sent (reply 400 (smsg False ''Invalid status value'')), db1)"
proof -
  let ?approve = "request [] ''65a1b2c3d4e5f60718293a06'' [(''status'', JStr ''approved'')]"
  let ?apply = "request ''ann-token'' []
                  [(''name'', JStr ''Ann''), (''email'', JStr ''ann@example.com''),
                   (''district'', JStr ''Sylhet''), (''status'', JStr ''approved'')]"
  let ?vip = "request [] ''65a1b2c3d4e5f60718293a06'' [(''status'', JStr ''vip'')]"
  have inv: "list_all (\<lambda>d. status_ok (getf d ''status'')) (agents db1)"
    by (simp add: db1_def bob_agent_request_def status_ok_def getf_def)
  have 1: "list_all (\<lambda>d. status_ok (getf d ''status''))
             (agents (snd (serve PATCH_agents_id_status env0 db1 ?approve)))"
    using inv agent_status_invariant
      [where s = db1 and ep = PATCH_agents_id_status and e = env0 and r = ?approve]
    by blast
  obtain out s1 where run: "post_agents env0 db1 ?apply = (out, s1)"
    by (cases "post_agents env0 db1 ?apply")
  have "\<exists>resp. out = Sent resp \<and> status resp = 201"
    using run
    by (auto simp: post_agents_def verifyToken_def request_def startsWith_def env0_def idp_def
        h_post_agents_def getf_def findOne_def db1_def bob_agent_request_def matches_def
        user_field_def insertOne_def prepare_doc_def bson_def)
  then obtain resp where out: "out = Sent resp" and st: "status resp = 201" by blast
  have 2: "\<exists>d. agents (snd (post_agents env0 db1 ?apply)) = agents db1 @ [d]
             \<and> getf d ''status'' = JStr ''pending''"
    using run out st agent_status_invariant
      [where e = env0 and s = db1 and r = ?apply and resp = resp and s' = s1]
    by simp
  have 3: "patch_agent_status env0 db1 ?vip
             = (Sent (reply 400 (smsg False ''Invalid status value'')), db1)"
    using agent_status_invariant [where r = ?vip and e = env0 and s = db1]
    by (simp add: request_def status_ok_def getf_def)
  from 1 2 3 show ?thesis by blast
qed

section \<open>Response statuses\<close>

lemma sent_ok_Sent [simp]: "sent_ok S (Sent resp, s) = (status resp \<in> S)"
  by (simp add: sent_ok_def)

lemma sent_ok_Unhandled [simp]: "sent_ok S (Unhandled, s)"
  by (simp add: sent_ok_def)

lemma sent_ok_fail500 [simp]:
  "500 \<in> S \<Longrightarrow> sent_ok S (fail500 m s)" "500 \<in> S \<Longrightarrow> sent_ok S (sfail500 m s)"
  by (simp_all add: fail500_def sfail500_def)
















section \<open>Blog authorship\<close>







lemma verifyAdmin_keeps_request: "verifyAdmin e s r = Next r' \<Longrightarrow> r' = r"
  by (auto simp: verifyAdmin_def split: option.splits sum.splits if_splits)




section \<open>Ownership\<close>








section \<open>Creating and fetching an application\<close>

text \<open>
  C7, at inputs where the claim fails. Jane submits an application whose body names
  another \<^verbatim>\<open>userEmail\<close>; the record fetched by the returned identifier carries Jane's
  email, not the submitted one. In \<^verbatim>\<open>index.js\<close> the body is stored as it is, with no
  status and no timestamp.
\<close>

theorem application_round_trip_counterexample:
  "post_applications env0 db0
     (request ''jane-token'' []
        [(''aname'', JStr ''Jane Doe''), (''userEmail'', JStr ''eve@example.com'')])
     = (Sent \<lparr>status = 201,
               payload = JO [(''insertedId'', JV (JOid ''65a1b2c3d4e5f60718293a4b''))]\<rparr>,
        db0\<lparr>applications :=
             [jane_application,
              [(''aname'', JStr ''Jane Doe''), (''userEmail'', JStr ''jane@example.com''),
               (''status'', JStr ''pending''), (''applicationDate'', JDate 1700000000),
               (''_id'', JOid ''65a1b2c3d4e5f60718293a4b'')]]\<rparr>)
   \<and> get_application env1
        (db0\<lparr>applications :=
             [jane_application,
              [(''aname'', JStr ''Jane Doe''), (''userEmail'', JStr ''jane@example.com''),
               (''status'', JStr ''pending''), (''applicationDate'', JDate 1700000000),
               (''_id'', JOid ''65a1b2c3d4e5f60718293a4b'')]]\<rparr>)
        (request ''jane-token'' ''65a1b2c3d4e5f60718293a4b'' [])
     = (Sent \<lparr>status = 200,
               payload = obj [(''aname'', JStr ''Jane Doe''),
                              (''userEmail'', JStr ''jane@example.com''),
                              (''status'', JStr ''pending''),
                              (''applicationDate'', JDate 1700000000),
                              (''_id'', JOid ''65a1b2c3d4e5f60718293a4b'')]\<rparr>,
        db0\<lparr>applications :=
             [jane_application,
              [(''aname'', JStr ''Jane Doe''), (''userEmail'', JStr ''jane@example.com''),
               (''status'', JStr ''pending''), (''applicationDate'', JDate 1700000000),
               (''_id'', JOid ''65a1b2c3d4e5f60718293a4b'')]]\<rparr>)
   \<and> post_applications_index env0 db0 (request ''jane-token'' [] [(''aname'', JStr ''Jane Doe'')])
     = (Sent \<lparr>status = 200,
               payload = JO [(''insertedId'', JV (JOid ''65a1b2c3d4e5f60718293a4b''))]\<rparr>,
        db0\<lparr>applications :=
             [jane_application,
              [(''aname'', JStr ''Jane Doe''), (''_id'', JOid ''65a1b2c3d4e5f60718293a4b'')]]\<rparr>)"
  by (simp add: post_applications_def post_applications_index_def get_application_def
      verifyToken_def h_post_applications_def h_post_applications_index_def
      h_get_application_def request_def startsWith_def env0_def env1_def idp_def
      user_field_def findOne_def db0_def matches_def getf_def ObjectId_def is_hex_def
      hex_lower_def jane_application_def insertOne_def prepare_doc_def bson_def
      not_owner_nor_admin_def reply_def)

lemma matches_id: "matches [(''_id'', JOid oid)] d = (getf d ''_id'' = JOid oid)"
  by (auto simp: matches_def getf_def split: option.splits)

lemma find_appended:
  "\<not> list_ex P c \<Longrightarrow> P d \<Longrightarrow> find P (c @ [d]) = Some d"
  by (induction c) auto

lemma h_post_applications_cases:
  "(\<exists>resp. h_post_applications e s (r\<lparr>user := Some tok\<rparr>) = (Sent resp, s) \<and> status resp = 500)
   \<or> (\<exists>i c.
         insertOne e (applications s)
            (setf ''applicationDate'' (JDate (now e))
              (setf ''status'' (JStr ''pending'')
                (setf ''userEmail'' (getf tok ''email'') (body r)))) = Inr (i, c)
         \<and> h_post_applications e s (r\<lparr>user := Some tok\<rparr>)
             = (Sent (reply 201 (JO [(''insertedId'', JV i)])), s\<lparr>applications := c\<rparr>))"
  by (simp add: h_post_applications_def user_field_def fail500_def split: sum.split)

text \<open>
  C7, amended. Let a \<^verbatim>\<open>POST /applications\<close> whose body has no \<^verbatim>\<open>_id\<close>, made with an
  accepted token whose email is a string, be answered 201, the driver's generated id being
  24 lower-case hex digits. Then the response carries that id, and a later
  \<^verbatim>\<open>GET /applications/:id\<close> with that id, by the same identity and with the store up,
  answers 200 with a record that has status \<^verbatim>\<open>pending\<close>, the server's clock reading as
  \<^verbatim>\<open>applicationDate\<close>, the token's email as \<^verbatim>\<open>userEmail\<close>, and every other submitted
  member as it was submitted. The members \<^verbatim>\<open>userEmail\<close>, \<^verbatim>\<open>status\<close> and
  \<^verbatim>\<open>applicationDate\<close> of the body are overwritten.
\<close>

theorem application_round_trip:
  assumes "authorization r = Some a" and "startsWith a ''Bearer ''"
    and "verifyIdToken e (js_index (split_sp a) 1) = Some tok"
    and "getf tok ''email'' = JStr em"
    and "bsonv (getf (body r) ''_id'') = JNull"
    and "ObjectId (new_oid e) = Inr (new_oid e)"
    and "post_applications e s r = (Sent resp, s1)" and "status resp = 201"
    and "authorization r' = Some a'" and "startsWith a' ''Bearer ''"
    and "verifyIdToken e' (js_index (split_sp a') 1) = Some tok'"
    and "getf tok' ''email'' = JStr em"
    and "store_up e'" and "params_id r' = new_oid e"
  shows "resp = reply 201 (JO [(''insertedId'', JV (JOid (new_oid e)))])
       \<and> (\<exists>record. get_application e' s1 r' = (Sent (reply 200 (obj record)), s1)
            \<and> getf record ''status'' = JStr ''pending''
            \<and> getf record ''applicationDate'' = JDate (now e)
            \<and> getf record ''userEmail'' = JStr em
            \<and> (\<forall>k v. map_of (body r) k = Some v
                    \<and> k \<notin> {''userEmail'', ''status'', ''applicationDate'', ''_id''} \<longrightarrow>
                  getf record k = bsonv v))"
proof -
  let ?D = "setf ''applicationDate'' (JDate (now e))
              (setf ''status'' (JStr ''pending'')
                (setf ''userEmail'' (JStr em) (body r)))"
  let ?rec = "bson (setf ''_id'' (JOid (new_oid e)) ?D)"
  have run: "h_post_applications e s (r\<lparr>user := Some tok\<rparr>) = (Sent resp, s1)"
    using assms(1-3,7) by (simp add: post_applications_def verifyToken_def)
  from h_post_applications_cases [where e = e and s = s and r = r and tok = tok] run assms(4,8)
  obtain i c where ins: "insertOne e (applications s) ?D = Inr (i, c)"
    and resp: "resp = reply 201 (JO [(''insertedId'', JV i)])"
    and s1: "s1 = s\<lparr>applications := c\<rparr>"
    by auto
  have noid: "bsonv (getf ?D ''_id'') = JNull"
    using assms(5) by (simp add: getf_setf)
  then have prep: "prepare_doc e ?D = ?rec" by (simp add: prepare_doc_def)
  have rec_id: "getf ?rec ''_id'' = JOid (new_oid e)"
    by (simp add: getf_bson map_of_setf)
  from insertOne_Inr [OF ins] prep rec_id
  have c: "c = applications s @ [?rec]" and i: "i = JOid (new_oid e)"
    and fresh: "\<not> list_ex (\<lambda>x. getf x ''_id'' = JOid (new_oid e)) (applications s)"
    by auto
  have found: "find (matches [(''_id'', JOid (new_oid e))]) (applications s1) = Some ?rec"
  proof -
    have "matches [(''_id'', JOid (new_oid e))] = (\<lambda>x. getf x ''_id'' = JOid (new_oid e))"
      by (rule ext) (rule matches_id)
    with fresh rec_id show ?thesis
      unfolding s1 c by (simp add: find_appended)
  qed
  have email: "getf ?rec ''userEmail'' = JStr em"
    by (simp add: getf_bson map_of_setf)
  then have owner: "\<not> not_owner_nor_admin ?rec tok'"
    using assms(12) by (simp add: not_owner_nor_admin_def)
  have fetch: "get_application e' s1 r' = (Sent (reply 200 (obj ?rec)), s1)"
    using assms(9-11,13,14) assms(6) found owner
    by (simp add: get_application_def verifyToken_def h_get_application_def findOne_def)
  have st: "getf ?rec ''status'' = JStr ''pending''"
    and dt: "getf ?rec ''applicationDate'' = JDate (now e)"
    by (simp_all add: getf_bson map_of_setf)
  have rest: "getf ?rec k = bsonv v"
    if "map_of (body r) k = Some v"
      "k \<notin> {''userEmail'', ''status'', ''applicationDate'', ''_id''}" for k v
    using that by (simp add: getf_bson map_of_setf)
  from resp i fetch st dt email rest show ?thesis by blast
qed

text \<open>
  The amended C7 at the spec's scenario: Jane applies for policy X and fetches the
  application by the returned identifier.
\<close>

theorem application_round_trip_witness:
  "fst (post_applications env0 db0
          (request ''jane-token'' [] [(''policyId'', JStr ''X''), (''aname'', JStr ''Jane Doe'')]))
     = Sent (reply 201 (JO [(''insertedId'', JV (JOid ''65a1b2c3d4e5f60718293a4b''))]))
   \<and> (\<exists>record.
         get_application env1
           (snd (post_applications env0 db0
              (request ''jane-token'' []
                 [(''policyId'', JStr ''X''), (''aname'', JStr ''Jane Doe'')])))
           (request ''jane-token'' ''65a1b2c3d4e5f60718293a4b'' [])
         = (Sent (reply 200 (obj record)),
            snd (post_applications env0 db0
              (request ''jane-token'' []
                 [(''policyId'', JStr ''X''), (''aname'', JStr ''Jane Doe'')])))
       \<and> getf record ''status'' = JStr ''pending''
       \<and> getf record ''applicationDate'' = JDate 1700000000
       \<and> getf record ''userEmail'' = JStr ''jane@example.com''
       \<and> getf record ''policyId'' = JStr ''X''
       \<and> getf record ''aname'' = JStr ''Jane Doe'')"
proof -
  let ?post = "request ''jane-token'' [] [(''policyId'', JStr ''X''), (''aname'', JStr ''Jane Doe'')]"
  let ?get = "request ''jane-token'' ''65a1b2c3d4e5f60718293a4b'' []"
  let ?jane = "[(''email'', JStr ''jane@example.com''), (''name'', JStr ''Jane Doe'')]"
  obtain out s1 where run: "post_applications env0 db0 ?post = (out, s1)"
    by (cases "post_applications env0 db0 ?post")
  have "\<exists>resp. out = Sent resp \<and> status resp = 201"
    using run
    by (auto simp: post_applications_def verifyToken_def request_def startsWith_def env0_def
        idp_def h_post_applications_def user_field_def getf_def db0_def insertOne_def
        prepare_doc_def bson_def jane_application_def)
  then obtain resp where out: "out = Sent resp" and st: "status resp = 201" by blast
  have p1: "authorization ?post = Some ''Bearer jane-token''"
    and p9: "authorization ?get = Some ''Bearer jane-token''"
    and p14: "params_id ?get = new_oid env0"
    and p5: "bsonv (getf (body ?post) ''_id'') = JNull"
    by (simp_all add: request_def env0_def getf_def)
  have p2: "startsWith ''Bearer jane-token'' ''Bearer ''"
    by (simp add: startsWith_def)
  have p3: "verifyIdToken env0 (js_index (split_sp ''Bearer jane-token'') 1) = Some ?jane"
    and p11: "verifyIdToken env1 (js_index (split_sp ''Bearer jane-token'') 1) = Some ?jane"
    and p13: "store_up env1"
    by (simp_all add: env0_def env1_def idp_def)
  have p4: "getf ?jane ''email'' = JStr ''jane@example.com''"
    by (simp add: getf_def)
  have p6: "ObjectId (new_oid env0) = Inr (new_oid env0)"
    by (simp add: env0_def ObjectId_def is_hex_def hex_lower_def)
  have p7: "post_applications env0 db0 ?post = (Sent resp, s1)"
    using run out by simp
  from application_round_trip [OF p1 p2 p3 p4 p5 p6 p7 st p9 p2 p11 p4 p13 p14]
  obtain stored where
    resp: "resp = reply 201 (JO [(''insertedId'', JV (JOid (new_oid env0)))])"
    and fetch: "get_application env1 s1 ?get = (Sent (reply 200 (obj stored)), s1)"
    and fields: "getf stored ''status'' = JStr ''pending''"
      "getf stored ''applicationDate'' = JDate (now env0)"
      "getf stored ''userEmail'' = JStr ''jane@example.com''"
    and rest: "\<forall>k v. map_of (body ?post) k = Some v
                 \<and> k \<notin> {''userEmail'', ''status'', ''applicationDate'', ''_id''} \<longrightarrow>
               getf stored k = bsonv v"
    by blast
  from rest have "getf stored ''policyId'' = JStr ''X''" "getf stored ''aname'' = JStr ''Jane Doe''"
    by (simp_all add: request_def)
  with resp fetch fields run out show ?thesis
    by (auto simp: env0_def)
qed

section \<open>Profile upsert\<close>








lemma bson_idem: "bson (bson d) = bson d"
proof -
  have "bsonv (bsonv v) = bsonv v" for v by (cases v) auto
  then show ?thesis by (induction d) (auto simp: bson_def)
qed













text \<open>
  The oldest server file has no upsert: its \<^verbatim>\<open>POST /users\<close> inserts the body, so the same
  profile submitted twice is stored twice.
\<close>

lemma post_users_insert_twice:
  "users (snd (post_users_insert env1
     (snd (post_users_insert env0 db0
        (request [] [] [(''email'', JStr ''jane@example.com''), (''name'', JStr ''Jane Doe'')])))
     (request [] [] [(''email'', JStr ''jane@example.com''), (''name'', JStr ''Jane Doe'')])))
   = users db0 @
     [[(''email'', JStr ''jane@example.com''), (''name'', JStr ''Jane Doe''),
       (''_id'', JOid ''65a1b2c3d4e5f60718293a4b'')],
      [(''email'', JStr ''jane@example.com''), (''name'', JStr ''Jane Doe''),
       (''_id'', JOid ''65a1b2c3d4e5f60718293a4c'')]]"
  by (simp add: post_users_insert_def request_def insertOne_def prepare_doc_def bson_def
      getf_def env0_def env1_def db0_def)

end
